theory Spec2Isabelle
  imports Main
begin

section \<open>Data model\<close>

text \<open>
  The rows of the three tables, as \<^verbatim>\<open>src/types/database.ts\<close> declares them and as
  the migrations \<^verbatim>\<open>001\<close> to \<^verbatim>\<open>003\<close> create them. Identifiers are the strings the
  TypeScript code compares with \<^verbatim>\<open>===\<close>. Columns that no modelled function reads or
  writes (email, push token, the row timestamps of users and requests) are left out.
  Instants (\<^verbatim>\<open>created_at\<close>, \<^verbatim>\<open>read_at\<close>, \<^verbatim>\<open>Date.now()\<close>) are natural numbers,
  the milliseconds the clock shows.
\<close>

datatype ConnectionStatus = Disconnected | Pending | Connected

datatype RequestStatus = ReqPending | ReqAccepted | ReqRejected

record User =
  user_id :: string
  username :: string
  display_name :: string
  connection_status :: ConnectionStatus
  connected_to :: "string option"

record ConnectionRequest =
  request_id :: string
  from_user :: string
  to_user :: string
  status :: RequestStatus

record Database =
  users :: "User list"
  connection_requests :: "ConnectionRequest list"

text \<open>
  What the operations report. Each constructor stands for one \<^verbatim>\<open>throw\<close> site (or a
  group the caller cannot tell apart) of \<^verbatim>\<open>connectionService.ts\<close>:
  \<^item> \<open>UsersNotFound\<close>: "One or both users not found";
  \<^item> \<open>FromUserNotDisconnected\<close>: "You must be disconnected to send a connection request";
  \<^item> \<open>ToUserNotDisconnected\<close>: "You can only connect with disconnected users";
  \<^item> \<open>DuplicateRequest\<close>: "A connection request already exists between these users";
  \<^item> \<open>ConstraintViolation\<close>: the insert is refused by a constraint of migration 002;
  \<^item> \<open>RequestNotFound\<close>: no single pending row for the id (the error of \<^verbatim>\<open>.single()\<close>
    and "Connection request not found or already processed");
  \<^item> \<open>NotConnected\<close>: no single connected row for the user, or no partner in it
    ("User is not connected to anyone").
\<close>

datatype error =
    UsersNotFound
  | FromUserNotDisconnected
  | ToUserNotDisconnected
  | DuplicateRequest
  | ConstraintViolation
  | RequestNotFound
  | NotConnected

section \<open>The backing store\<close>

text \<open>
  \<^verbatim>\<open>.single()\<close> of the query builder: the one row of the result, an error when the
  result has no row or several.
\<close>

definition single :: "'a list \<Rightarrow> 'a option" where
  "single rows = (case rows of [r] \<Rightarrow> Some r | _ \<Rightarrow> None)"

text \<open>\<^verbatim>\<open>from('users').update(f).eq('id', uid)\<close>: every row with that id is rewritten.\<close>

definition update_user :: "string \<Rightarrow> (User \<Rightarrow> User) \<Rightarrow> Database \<Rightarrow> Database" where
  "update_user uid f db =
     db\<lparr>users := map (\<lambda>u. if user_id u = uid then f u else u) (users db)\<rparr>"

text \<open>\<^verbatim>\<open>from('connection_requests').update({status}).eq('id', rid)\<close>.\<close>

definition update_request_status :: "string \<Rightarrow> RequestStatus \<Rightarrow> Database \<Rightarrow> Database" where
  "update_request_status rid s db =
     db\<lparr>connection_requests :=
          map (\<lambda>r. if request_id r = rid then r\<lparr>status := s\<rparr> else r) (connection_requests db)\<rparr>"


text \<open>Reading one row by its key, for stating what an operation leaves behind.\<close>

definition get_user :: "Database \<Rightarrow> string \<Rightarrow> User option" where
  "get_user db uid = find (\<lambda>u. user_id u = uid) (users db)"

definition get_request :: "Database \<Rightarrow> string \<Rightarrow> ConnectionRequest option" where
  "get_request db rid = find (\<lambda>r. request_id r = rid) (connection_requests db)"


section \<open>Connection service (\<^verbatim>\<open>services/supabase/connectionService.ts\<close>)\<close>







text \<open>
  \<^verbatim>\<open>!user.connected_to\<close> is true for \<^verbatim>\<open>null\<close> and for the empty string.
\<close>

definition disconnectUsers_try :: "string \<Rightarrow> Database \<Rightarrow> error + Database" where
  "disconnectUsers_try userId db =
     (case single (filter (\<lambda>u. user_id u = userId \<and> connection_status u = Connected) (users db)) of
        None \<Rightarrow> Inl NotConnected
      | Some user \<Rightarrow>
          (case connected_to user of
             None \<Rightarrow> Inl NotConnected
           | Some connectedUserId \<Rightarrow>
               if connectedUserId = [] then Inl NotConnected
               else Inr (update_user connectedUserId
                           (\<lambda>u. u\<lparr>connection_status := Disconnected, connected_to := None\<rparr>)
                           (update_user userId
                              (\<lambda>u. u\<lparr>connection_status := Disconnected, connected_to := None\<rparr>)
                              db))))"

definition disconnectUsers :: "string \<Rightarrow> Database \<Rightarrow> error option \<times> Database" where
  "disconnectUsers userId db =
     (case disconnectUsers_try userId db of
        Inr db' \<Rightarrow> (None, db')
      | Inl e \<Rightarrow> (Some e, db))"

section \<open>Connection store (\<^verbatim>\<open>store/connectionStore.ts\<close>)\<close>

record ConnectionState =
  connectionStatus :: "ConnectionStatus option"
  connectedUser :: "User option"
  pendingRequests :: "ConnectionRequest list"
  isLoading :: bool
  connection_error :: "error option"

text \<open>
  \<^verbatim>\<open>x?.id || ''\<close>: the id when there is an object with a non-empty id, the empty
  string otherwise.
\<close>

definition id_or_empty :: "User option \<Rightarrow> string" where
  "id_or_empty u = (case u of None \<Rightarrow> [] | Some v \<Rightarrow> user_id v)"


text \<open>\<^verbatim>\<open>disconnect(userId)\<close>.\<close>

definition disconnect ::
  "string \<Rightarrow> ConnectionState \<times> Database \<Rightarrow> bool \<times> ConnectionState \<times> Database" where
  "disconnect userId s =
     (case s of (cs, db) \<Rightarrow>
        (let cs1 = cs\<lparr>isLoading := True, connection_error := None\<rparr> in
         case disconnectUsers userId db of
           (Some e, db') \<Rightarrow> (False, cs1\<lparr>isLoading := False, connection_error := Some e\<rparr>, db')
         | (None, db') \<Rightarrow>
             (True, cs1\<lparr>isLoading := False, connectionStatus := Some Disconnected,
                        connectedUser := None\<rparr>, db')))"


section \<open>Messages: data and the client's world\<close>

datatype LocalStatus = Sending | Sent | Read | Failed

text \<open>
  \<^verbatim>\<open>Message\<close> and its local extension \<^verbatim>\<open>LocalMessage\<close> (messageStore). A row that comes
  from the server has no \<open>localStatus\<close>.
\<close>

record LocalMessage =
  msg_id :: string
  msg_from_user :: string
  msg_to_user :: string
  content :: string
  read_at :: "nat option"
  created_at :: nat
  localStatus :: "LocalStatus option"

text \<open>An entry of the offline queue: \<^verbatim>\<open>{ toUserId, content, createdAt }\<close>.\<close>

record OfflineEntry =
  entry_toUserId :: string
  entry_content :: string
  entry_createdAt :: nat

text \<open>
  What a message operation reports: "Message content cannot be empty", "Message is too
  long (max 500 characters)", an error of the remote store or the network, and "User or
  connected user not found".
\<close>

datatype message_error = EmptyContent | ContentTooLong | RemoteFailure | UserNotFound

text \<open>
  The requests the message service issues to the remote store. \<open>InsertMessage\<close> carries
  \<^verbatim>\<open>from_user\<close>, \<^verbatim>\<open>to_user\<close> and the trimmed content; \<open>SelectHistory\<close> the two users,
  the offset and the limit; \<open>UpdateReadAt\<close> a message id and the instant written;
  \<open>UpdateAllReadAt\<close> sender, recipient and the instant; \<open>UpsertTyping\<close> stands for the
  select-then-write of \<^verbatim>\<open>setTypingIndicator\<close>.
\<close>

datatype request =
    InsertMessage string string string
  | SelectHistory string string nat nat
  | UpdateReadAt string nat
  | UpdateAllReadAt string string nat
  | UpsertTyping string string bool

text \<open>
  The remote store's answers are parameters: what it returns for an insert and for a
  page of history, given every request issued so far (the last one being the request
  answered). \<open>None\<close> is an error of the store or of the network.
\<close>

record Remote =
  insert_reply :: "request list \<Rightarrow> LocalMessage option"
  history_reply :: "request list \<Rightarrow> LocalMessage list option"

record MessageState =
  messages :: "LocalMessage list"
  hasMoreMessages :: bool
  isLoadingMessages :: bool
  isLoadingMore :: bool
  isSendingMessage :: bool
  error :: "message_error option"
  currentPage :: nat
  messagesPerPage :: nat
  partnerIsTyping :: bool
  isTyping :: bool
  typingTimeout :: bool
  messageSubscription :: bool
  typingSubscription :: bool
  isOnline :: bool
  drafts :: "string \<rightharpoonup> string"
  scrollPositions :: "string \<rightharpoonup> nat"

text \<open>
  Everything on the client: the signed-in user of the auth store, the connection store,
  the message store, the two durable stores (the offline queue under its
  \<^verbatim>\<open>localStorage\<close> key, absent or a list; the cached messages of \<^verbatim>\<open>AsyncStorage\<close> by
  key), the clock, and two logs: the requests sent to the remote store, and one entry
  per call of the service's \<^verbatim>\<open>sendMessage\<close> (sender, recipient, content, success), in
  call order. The clock does not move during one action.
\<close>

record World =
  user :: "User option"
  connection :: ConnectionState
  store :: MessageState
  offline_queue :: "OfflineEntry list option"
  cached_messages :: "string \<rightharpoonup> LocalMessage list"
  clock :: nat
  requests :: "request list"
  sent_log :: "(string \<times> string \<times> string \<times> bool) list"

definition set_store :: "(MessageState \<Rightarrow> MessageState) \<Rightarrow> World \<Rightarrow> World" where
  "set_store f w = w\<lparr>store := f (store w)\<rparr>"

section \<open>JavaScript helpers\<close>

text \<open>Decimal rendering of a number inside a template string.\<close>

fun string_of_nat :: "nat \<Rightarrow> string" where
  "string_of_nat n =
     (if n < 10 then [char_of (48 + n)]
      else string_of_nat (n div 10) @ [char_of (48 + n mod 10)])"

declare string_of_nat.simps [simp del]

text \<open>
  \<^verbatim>\<open>String.prototype.trim\<close> on strings of 8-bit units: tab, line feed, vertical tab,
  form feed, carriage return, space and the no-break space are removed at both ends.
\<close>

definition js_space :: "char \<Rightarrow> bool" where
  "js_space c = (of_char c \<in> {9, 10, 11, 12, 13, 32, 160 :: nat})"

definition js_trim :: "string \<Rightarrow> string" where
  "js_trim s = rev (dropWhile js_space (rev (dropWhile js_space s)))"

text \<open>\<^verbatim>\<open>xs.slice(-n)\<close>: the last \<open>n\<close> elements, all of them when there are fewer.\<close>

definition slice_last :: "nat \<Rightarrow> 'a list \<Rightarrow> 'a list" where
  "slice_last n xs = drop (length xs - n) xs"

section \<open>Message service (\<^verbatim>\<open>services/supabase/messageService.ts\<close>)\<close>

text \<open>
  \<^verbatim>\<open>sendMessage(fromUserId, toUserId, content)\<close>: the two checks, then the insert. The
  call and its outcome are appended to \<open>sent_log\<close>.
\<close>

definition messageService_sendMessage ::
  "Remote \<Rightarrow> string \<Rightarrow> string \<Rightarrow> string \<Rightarrow> World \<Rightarrow> (message_error + LocalMessage) \<times> World" where
  "messageService_sendMessage remote fromUserId toUserId c w =
     (if js_trim c = [] then
        (Inl EmptyContent, w\<lparr>sent_log := sent_log w @ [(fromUserId, toUserId, c, False)]\<rparr>)
      else if length c > 500 then
        (Inl ContentTooLong, w\<lparr>sent_log := sent_log w @ [(fromUserId, toUserId, c, False)]\<rparr>)
      else
        (let reqs = requests w @ [InsertMessage fromUserId toUserId (js_trim c)] in
         case insert_reply remote reqs of
           None \<Rightarrow>
             (Inl RemoteFailure,
              w\<lparr>requests := reqs, sent_log := sent_log w @ [(fromUserId, toUserId, c, False)]\<rparr>)
         | Some data \<Rightarrow>
             (Inr data,
              w\<lparr>requests := reqs, sent_log := sent_log w @ [(fromUserId, toUserId, c, True)]\<rparr>)))"

text \<open>\<^verbatim>\<open>getMessageHistory(userId, partnerId, offset, limit)\<close>.\<close>

definition getMessageHistory ::
  "Remote \<Rightarrow> string \<Rightarrow> string \<Rightarrow> nat \<Rightarrow> nat \<Rightarrow> World
     \<Rightarrow> (message_error + LocalMessage list) \<times> World" where
  "getMessageHistory remote userId partnerId offset limit w =
     (let reqs = requests w @ [SelectHistory userId partnerId offset limit] in
      case history_reply remote reqs of
        None \<Rightarrow> (Inl RemoteFailure, w\<lparr>requests := reqs\<rparr>)
      | Some data \<Rightarrow> (Inr data, w\<lparr>requests := reqs\<rparr>))"

text \<open>
  \<^verbatim>\<open>markMessageAsRead(messageId)\<close> and \<^verbatim>\<open>markAllMessagesAsRead(fromUserId, toUserId)\<close>:
  one update each, stamped with the clock. Their callers ignore the result.
\<close>

definition markMessageAsRead :: "string \<Rightarrow> World \<Rightarrow> World" where
  "markMessageAsRead messageId w = w\<lparr>requests := requests w @ [UpdateReadAt messageId (clock w)]\<rparr>"

definition markAllMessagesAsRead :: "string \<Rightarrow> string \<Rightarrow> World \<Rightarrow> World" where
  "markAllMessagesAsRead fromUserId toUserId w =
     w\<lparr>requests := requests w @ [UpdateAllReadAt fromUserId toUserId (clock w)]\<rparr>"

text \<open>
  What the two updates do to the rows of the \<open>messages\<close> table:
  \<^verbatim>\<open>update({ read_at }).eq('id', messageId)\<close> rewrites every row with the id;
  \<^verbatim>\<open>update({ read_at }).eq('from_user', f).eq('to_user', t).is('read_at', null)\<close> the
  unread rows of the pair. The other requests write no \<open>read_at\<close>.
\<close>

fun apply_read_update :: "request \<Rightarrow> LocalMessage list \<Rightarrow> LocalMessage list" where
  "apply_read_update (UpdateReadAt mid t) rows =
     map (\<lambda>m. if msg_id m = mid then m\<lparr>read_at := Some t\<rparr> else m) rows"
| "apply_read_update (UpdateAllReadAt f t' time) rows =
     map (\<lambda>m. if msg_from_user m = f \<and> msg_to_user m = t' \<and> read_at m = None
               then m\<lparr>read_at := Some time\<rparr> else m) rows"
| "apply_read_update _ rows = rows"

text \<open>The offline queue.\<close>

definition getOfflineMessageQueue :: "World \<Rightarrow> OfflineEntry list" where
  "getOfflineMessageQueue w = (case offline_queue w of None \<Rightarrow> [] | Some queue \<Rightarrow> queue)"

definition addToOfflineQueue :: "string \<Rightarrow> string \<Rightarrow> World \<Rightarrow> World" where
  "addToOfflineQueue toUserId c w =
     w\<lparr>offline_queue :=
          Some (getOfflineMessageQueue w
                @ [\<lparr>entry_toUserId = toUserId, entry_content = c, entry_createdAt = clock w\<rparr>])\<rparr>"

text \<open>
  The \<^verbatim>\<open>for (const message of queue)\<close> loop of \<^verbatim>\<open>processOfflineQueue\<close>. The argument is
  the part of the queue from the current entry on. \<^verbatim>\<open>queue.indexOf(message)\<close> compares
  object identities, and the entries are the distinct objects \<^verbatim>\<open>JSON.parse\<close> made, so
  it is the position of the current entry and
  \<^verbatim>\<open>queue.slice(queue.indexOf(message))\<close> is that part. \<open>Some\<close> is the remaining queue
  at the failed send, \<open>None\<close> the end of the loop.
\<close>

fun processOfflineQueue_loop ::
  "Remote \<Rightarrow> string \<Rightarrow> OfflineEntry list \<Rightarrow> World \<Rightarrow> OfflineEntry list option \<times> World" where
  "processOfflineQueue_loop remote fromUserId [] w = (None, w)"
| "processOfflineQueue_loop remote fromUserId (message # rest) w =
     (case messageService_sendMessage remote fromUserId (entry_toUserId message) (entry_content message) w of
        (Inl e, w') \<Rightarrow> (Some (message # rest), w')
      | (Inr data, w') \<Rightarrow> processOfflineQueue_loop remote fromUserId rest w')"

text \<open>\<^verbatim>\<open>processOfflineQueue(fromUserId)\<close>; the boolean is \<^verbatim>\<open>success\<close>.\<close>

definition messageService_processOfflineQueue :: "Remote \<Rightarrow> string \<Rightarrow> World \<Rightarrow> bool \<times> World" where
  "messageService_processOfflineQueue remote fromUserId w =
     (let queue = getOfflineMessageQueue w in
      if queue = [] then (True, w)
      else case processOfflineQueue_loop remote fromUserId queue w of
             (Some remainingQueue, w') \<Rightarrow> (False, w'\<lparr>offline_queue := Some remainingQueue\<rparr>)
           | (None, w') \<Rightarrow> (True, w'\<lparr>offline_queue := None\<rparr>))"

section \<open>Message store (\<^verbatim>\<open>store/messageStore.ts\<close>)\<close>

definition setTypingStatus :: "bool \<Rightarrow> World \<Rightarrow> World" where
  "setTypingStatus typing w =
     (if id_or_empty (user w) = [] \<or> id_or_empty (connectedUser (connection w)) = []
         \<or> \<not> isOnline (store w)
      then w
      else (set_store (\<lambda>s. s\<lparr>isTyping := typing, typingTimeout := typing\<rparr>) w)
             \<lparr>requests := requests w
                @ [UpsertTyping (id_or_empty (user w)) (id_or_empty (connectedUser (connection w)))
                     typing]\<rparr>)"

text \<open>The key \<^verbatim>\<open>`messages-${userId}-${partnerId}`\<close> of the cached messages.\<close>

definition cache_key :: "string \<Rightarrow> string \<Rightarrow> string" where
  "cache_key userId partnerId = ''messages-'' @ userId @ ''-'' @ partnerId"

text \<open>\<^verbatim>\<open>markAsRead(messageId)\<close> and \<^verbatim>\<open>markAllAsRead(fromUserId)\<close>.\<close>

definition markAsRead :: "string \<Rightarrow> World \<Rightarrow> World" where
  "markAsRead messageId w =
     set_store (\<lambda>s. s\<lparr>messages :=
                   map (\<lambda>msg. if msg_id msg = messageId then msg\<lparr>read_at := Some (clock w)\<rparr> else msg)
                       (messages s)\<rparr>)
       (markMessageAsRead messageId w)"

definition markAllAsRead :: "string \<Rightarrow> World \<Rightarrow> World" where
  "markAllAsRead fromUserId w =
     (if id_or_empty (user w) = [] then w
      else set_store (\<lambda>s. s\<lparr>messages :=
                   map (\<lambda>msg. if msg_from_user msg = fromUserId \<and> read_at msg = None
                               then msg\<lparr>read_at := Some (clock w)\<rparr> else msg)
                       (messages s)\<rparr>)
             (markAllMessagesAsRead fromUserId (id_or_empty (user w)) w))"

text \<open>
  \<^verbatim>\<open>loadMessages(userId, partnerId, refresh)\<close>. The write of the cache is started
  inside the state update and its failure is ignored; the call of \<^verbatim>\<open>markAllAsRead\<close> is
  not awaited. Both are taken to complete.
\<close>

definition loadMessages :: "Remote \<Rightarrow> string \<Rightarrow> string \<Rightarrow> bool \<Rightarrow> World \<Rightarrow> World" where
  "loadMessages remote userId partnerId refresh w0 =
     (let w = set_store (\<lambda>s. s\<lparr>isLoadingMessages := True, error := None\<rparr>) w0;
          page = (if refresh then 0 else currentPage (store w));
          offset = page * messagesPerPage (store w)
      in case getMessageHistory remote userId partnerId offset (messagesPerPage (store w)) w of
           (Inl e, w1) \<Rightarrow> set_store (\<lambda>s. s\<lparr>isLoadingMessages := False, error := Some e\<rparr>) w1
         | (Inr data, w1) \<Rightarrow>
             (let combined = (if refresh then data else messages (store w1) @ data);
                  trimmed = slice_last 200 combined;
                  w2 = w1\<lparr>cached_messages :=
                            (cached_messages w1)(cache_key userId partnerId \<mapsto> slice_last 100 trimmed)\<rparr>;
                  w3 = set_store (\<lambda>s. s\<lparr>messages := trimmed,
                                          hasMoreMessages := (length data = messagesPerPage s),
                                          currentPage := (if refresh then 0 else currentPage s),
                                          isLoadingMessages := False\<rparr>) w2
              in if filter (\<lambda>msg. msg_from_user msg = partnerId \<and> read_at msg = None) data \<noteq> []
                 then markAllAsRead partnerId w3 else w3))"

text \<open>\<^verbatim>\<open>loadMoreMessages(userId, partnerId)\<close>.\<close>

definition loadMoreMessages :: "Remote \<Rightarrow> string \<Rightarrow> string \<Rightarrow> World \<Rightarrow> World" where
  "loadMoreMessages remote userId partnerId w0 =
     (if isLoadingMore (store w0) \<or> \<not> hasMoreMessages (store w0) then w0
      else
        (let w = set_store (\<lambda>s. s\<lparr>isLoadingMore := True\<rparr>) w0;
             nextPage = currentPage (store w) + 1;
             offset = nextPage * messagesPerPage (store w)
         in case getMessageHistory remote userId partnerId offset (messagesPerPage (store w)) w of
              (Inl e, w1) \<Rightarrow> set_store (\<lambda>s. s\<lparr>isLoadingMore := False, error := Some e\<rparr>) w1
            | (Inr data, w1) \<Rightarrow>
                (let combined = messages (store w1) @ data;
                     trimmed = slice_last 200 combined;
                     w2 = w1\<lparr>cached_messages :=
                               (cached_messages w1)(cache_key userId partnerId \<mapsto> slice_last 100 trimmed)\<rparr>
                 in set_store (\<lambda>s. s\<lparr>messages := trimmed,
                                       hasMoreMessages := (length data = messagesPerPage s),
                                       currentPage := nextPage,
                                       isLoadingMore := False\<rparr>) w2)))"

text \<open>
  The optimistic record of an online send, with the temporary id
  \<^verbatim>\<open>`temp-${Date.now()}`\<close>, and the world right after it is put in front of the window:
  the state in which the service is called.
\<close>

definition tempId :: "World \<Rightarrow> string" where
  "tempId w = ''temp-'' @ string_of_nat (clock w)"

definition optimistic :: "string \<Rightarrow> World \<Rightarrow> LocalMessage" where
  "optimistic c w =
     \<lparr>msg_id = tempId w,
      msg_from_user = id_or_empty (user w),
      msg_to_user = id_or_empty (connectedUser (connection w)),
      content = c, read_at = None, created_at = clock w, localStatus = Some Sending\<rparr>"

definition sendMessage_optimistic :: "string \<Rightarrow> World \<Rightarrow> World" where
  "sendMessage_optimistic c w = set_store (\<lambda>s. s\<lparr>messages := optimistic c w # messages s\<rparr>) w"

text \<open>\<^verbatim>\<open>sendMessage(content)\<close> of the store.\<close>

definition sendMessage :: "Remote \<Rightarrow> string \<Rightarrow> World \<Rightarrow> World" where
  "sendMessage remote c w0 =
     (let w = set_store (\<lambda>s. s\<lparr>isSendingMessage := True, error := None\<rparr>) w0 in
      if id_or_empty (user w) = [] \<or> id_or_empty (connectedUser (connection w)) = [] then
        set_store (\<lambda>s. s\<lparr>isSendingMessage := False, error := Some UserNotFound\<rparr>) w
      else
        (let w1 = setTypingStatus False w in
         if \<not> isOnline (store w1) then
           (let w2 = addToOfflineQueue (id_or_empty (connectedUser (connection w1))) c w1;
                optimisticMessage =
                  \<lparr>msg_id = ''offline-'' @ string_of_nat (clock w2),
                   msg_from_user = id_or_empty (user w2),
                   msg_to_user = id_or_empty (connectedUser (connection w2)),
                   content = c, read_at = None, created_at = clock w2,
                   localStatus = Some Sending\<rparr>
            in set_store (\<lambda>s. s\<lparr>messages := optimisticMessage # messages s,
                                  isSendingMessage := False\<rparr>) w2)
         else
           (case messageService_sendMessage remote (id_or_empty (user w1))
                   (id_or_empty (connectedUser (connection w1))) c (sendMessage_optimistic c w1) of
              (Inl e, w3) \<Rightarrow>
                set_store (\<lambda>s. s\<lparr>isSendingMessage := False, error := Some e\<rparr>)
                  (set_store (\<lambda>s. s\<lparr>messages :=
                       map (\<lambda>msg. if msg_id msg = tempId w1 then msg\<lparr>localStatus := Some Failed\<rparr> else msg)
                           (messages s)\<rparr>) w3)
            | (Inr data, w3) \<Rightarrow>
                set_store (\<lambda>s. s\<lparr>messages :=
                       map (\<lambda>msg. if msg_id msg = tempId w1 then data\<lparr>localStatus := Some Sent\<rparr> else msg)
                           (messages s),
                     isSendingMessage := False\<rparr>) w3)))"


text \<open>\<^verbatim>\<open>cleanupSubscriptions()\<close> and \<^verbatim>\<open>resetStore()\<close>.\<close>

definition cleanupSubscriptions :: "World \<Rightarrow> World" where
  "cleanupSubscriptions w =
     set_store (\<lambda>s. s\<lparr>messageSubscription := False, typingSubscription := False,
                       typingTimeout := False\<rparr>) w"

definition resetStore :: "World \<Rightarrow> World" where
  "resetStore w =
     set_store (\<lambda>s. s\<lparr>messages := [], hasMoreMessages := True, isLoadingMessages := False,
                       isLoadingMore := False, isSendingMessage := False, error := None,
                       currentPage := 0, partnerIsTyping := False, isTyping := False,
                       drafts := Map.empty, scrollPositions := Map.empty\<rparr>)
       (cleanupSubscriptions w)"

text \<open>
  The step of \<^verbatim>\<open>initializeStore(userId, partnerId)\<close> that restores the cached messages:
  a stored, non-empty list replaces the window.
\<close>

definition restore_cached_messages :: "string \<Rightarrow> string \<Rightarrow> World \<Rightarrow> World" where
  "restore_cached_messages userId partnerId w =
     (case cached_messages w (cache_key userId partnerId) of
        None \<Rightarrow> w
      | Some parsed \<Rightarrow> if parsed = [] then w else set_store (\<lambda>s. s\<lparr>messages := parsed\<rparr>) w)"

section \<open>Settings screen: \<^verbatim>\<open>confirmDisconnect\<close>\<close>

text \<open>
  \<^verbatim>\<open>disconnect(user!.id)\<close>, and on success \<^verbatim>\<open>resetMessageStore()\<close> and the update of
  the signed-in user. Without a signed-in user \<^verbatim>\<open>user!.id\<close> throws: \<open>None\<close>. The modal
  flag and the navigation are not part of the model.
\<close>

definition confirmDisconnect :: "World \<times> Database \<Rightarrow> (World \<times> Database) option" where
  "confirmDisconnect s =
     (case s of (w, db) \<Rightarrow>
        (case user w of
           None \<Rightarrow> None
         | Some u \<Rightarrow>
             (case disconnect (user_id u) (connection w, db) of
                (True, cs, db') \<Rightarrow>
                  Some ((resetStore (w\<lparr>connection := cs\<rparr>))
                          \<lparr>user := Some (u\<lparr>connected_to := None, connection_status := Disconnected\<rparr>)\<rparr>,
                        db')
              | (False, cs, db') \<Rightarrow> Some (w\<lparr>connection := cs\<rparr>, db'))))"

section \<open>Reading the log of sends\<close>

definition sent_args :: "string \<times> string \<times> string \<times> bool \<Rightarrow> string \<times> string \<times> string" where
  "sent_args e = (case e of (f, t, c, ok) \<Rightarrow> (f, t, c))"

definition sent_ok :: "string \<times> string \<times> string \<times> bool \<Rightarrow> bool" where
  "sent_ok e = (case e of (f, t, c, ok) \<Rightarrow> ok)"

text \<open>What the service's \<^verbatim>\<open>sendMessage\<close> is called with for a queue entry.\<close>

definition entry_args :: "string \<Rightarrow> OfflineEntry \<Rightarrow> string \<times> string \<times> string" where
  "entry_args fromUserId message = (fromUserId, entry_toUserId message, entry_content message)"

section \<open>Example data\<close>

definition mk_user :: "string \<Rightarrow> ConnectionStatus \<Rightarrow> string option \<Rightarrow> User" where
  "mk_user uid st partner =
     \<lparr>user_id = uid, username = CHR ''@'' # uid, display_name = uid,
      connection_status = st, connected_to = partner\<rparr>"

definition request1 :: "RequestStatus \<Rightarrow> ConnectionRequest" where
  "request1 st = \<lparr>request_id = ''r1'', from_user = ''u1'', to_user = ''u2'', status = st\<rparr>"




definition db_connected :: Database where
  "db_connected = \<lparr>users = [mk_user ''u1'' Connected (Some ''u2''), mk_user ''u2'' Connected (Some ''u1'')],
                   connection_requests = [request1 ReqAccepted]\<rparr>"


text \<open>
  A remote store that accepts every insert and returns the stored row, one that is
  unreachable, and one that refuses the inserts of one content.
\<close>

definition server_row :: "request list \<Rightarrow> LocalMessage option" where
  "server_row reqs =
     (case rev reqs of
        InsertMessage f t c # _ \<Rightarrow>
          Some \<lparr>msg_id = ''m'' @ string_of_nat (length reqs), msg_from_user = f, msg_to_user = t,
                content = c, read_at = None, created_at = length reqs, localStatus = None\<rparr>
      | _ \<Rightarrow> None)"

definition remote_up :: Remote where
  "remote_up = \<lparr>insert_reply = server_row, history_reply = (\<lambda>reqs. Some [])\<rparr>"


definition remote_refusing :: "string \<Rightarrow> Remote" where
  "remote_refusing bad =
     \<lparr>insert_reply =
        (\<lambda>reqs. case rev reqs of
                  InsertMessage f t c # _ \<Rightarrow> if c = bad then None else server_row reqs
                | _ \<Rightarrow> None),
      history_reply = (\<lambda>reqs. Some [])\<rparr>"

text \<open>The message store as it is created, and user \<open>u1\<close> signed in and connected to \<open>u2\<close>.\<close>

definition store_initial :: MessageState where
  "store_initial =
     \<lparr>messages = [], hasMoreMessages = True, isLoadingMessages = False, isLoadingMore = False,
      isSendingMessage = False, error = None, currentPage = 0, messagesPerPage = 20,
      partnerIsTyping = False, isTyping = False, typingTimeout = False,
      messageSubscription = False, typingSubscription = False, isOnline = True,
      drafts = Map.empty, scrollPositions = Map.empty\<rparr>"

definition world_connected :: World where
  "world_connected =
     \<lparr>user = Some (mk_user ''u1'' Connected (Some ''u2'')),
      connection = \<lparr>connectionStatus = Some Connected,
                     connectedUser = Some (mk_user ''u2'' Connected (Some ''u1'')),
                     pendingRequests = [], isLoading = False, connection_error = None\<rparr>,
      store = store_initial, offline_queue = None, cached_messages = Map.empty,
      clock = 1000, requests = [], sent_log = []\<rparr>"

definition world_offline :: World where
  "world_offline = set_store (\<lambda>s. s\<lparr>isOnline := False\<rparr>) world_connected"

text \<open>Three queued messages to \<open>u2\<close>.\<close>

definition queued :: "string \<Rightarrow> OfflineEntry" where
  "queued c = \<lparr>entry_toUserId = ''u2'', entry_content = c, entry_createdAt = 900\<rparr>"

definition world_queued :: World where
  "world_queued = world_connected\<lparr>offline_queue := Some [queued ''a'', queued ''b'', queued ''c'']\<rparr>"

text \<open>A message of 501 characters.\<close>

definition long_content :: string where
  "long_content = replicate 501 (CHR ''a'')"

text \<open>
  Messages from \<open>u2\<close> to \<open>u1\<close>, already read, one per instant; \<open>newest_first lo hi\<close> are
  those of the instants from \<open>lo\<close> up to but excluding \<open>hi\<close>, the newest in front, as the
  history query orders them.
\<close>

definition message_at :: "nat \<Rightarrow> LocalMessage" where
  "message_at t =
     \<lparr>msg_id = ''m'' @ string_of_nat t, msg_from_user = ''u2'', msg_to_user = ''u1'',
      content = ''hi'', read_at = Some t, created_at = t, localStatus = None\<rparr>"

definition newest_first :: "nat \<Rightarrow> nat \<Rightarrow> LocalMessage list" where
  "newest_first lo hi = map message_at (rev [lo..<hi])"

text \<open>
  A window of the 200 messages of the instants 20 to 219 after ten pages, and a remote
  store whose next page holds the 20 older messages of the instants 0 to 19.
\<close>

definition world_full_window :: World where
  "world_full_window =
     set_store (\<lambda>s. s\<lparr>messages := newest_first 20 220, currentPage := 9\<rparr>) world_connected"

definition remote_older_page :: Remote where
  "remote_older_page = \<lparr>insert_reply = (\<lambda>reqs. None), history_reply = (\<lambda>reqs. Some (newest_first 0 20))\<rparr>"

text \<open>One unread message from \<open>u2\<close> in the window of \<open>u1\<close>, and in the table.\<close>

definition unread_message :: LocalMessage where
  "unread_message =
     \<lparr>msg_id = ''m1'', msg_from_user = ''u2'', msg_to_user = ''u1'', content = ''hi'',
      read_at = None, created_at = 900, localStatus = None\<rparr>"

definition world_unread :: World where
  "world_unread = set_store (\<lambda>s. s\<lparr>messages := [unread_message]\<rparr>) world_connected"

text \<open>
  The connected pair after a first page of history was loaded: one message in the
  window and in the cache of the conversation.
\<close>

definition world_with_history :: World where
  "world_with_history =
     (set_store (\<lambda>s. s\<lparr>messages := [message_at 900]\<rparr>) world_connected)
       \<lparr>cached_messages := [cache_key ''u1'' ''u2'' \<mapsto> [message_at 900]]\<rparr>"

section \<open>Facts about the backing store\<close>

lemma find_map_preserving:
  assumes "\<And>x. P (g x) = P x"
  shows "find P (map g xs) = map_option g (find P xs)"
  using assms by (induction xs) auto

lemma get_user_update_user:
  assumes "\<And>u. user_id (f u) = user_id u"
  shows "get_user (update_user uid f db) uid' =
         map_option (\<lambda>u. if user_id u = uid then f u else u) (get_user db uid')"
proof -
  have "\<And>x. (user_id (if user_id x = uid then f x else x) = uid') = (user_id x = uid')"
    using assms by simp
  then show ?thesis
    unfolding get_user_def update_user_def
    by (simp add: find_map_preserving [where P = "\<lambda>u. user_id u = uid'"])
qed

lemma get_user_update_request_status [simp]:
  "get_user (update_request_status rid s db) uid = get_user db uid"
  by (simp add: get_user_def update_request_status_def)

lemma find_Some_holds: "find P xs = Some x \<Longrightarrow> P x \<and> x \<in> set xs"
  by (induction xs) (auto split: if_splits)

lemma get_user_Some_id: "get_user db uid = Some u \<Longrightarrow> user_id u = uid"
  unfolding get_user_def using find_Some_holds [of "\<lambda>u. user_id u = uid"] by blast


lemma filter_key_distinct:
  assumes "distinct (map f xs)" and "x \<in> set xs"
  shows "filter (\<lambda>y. f y = f x) xs = [x]"
  using assms
proof (induction xs)
  case Nil
  then show ?case by simp
next
  case (Cons a xs)
  show ?case
  proof (cases "a = x")
    case True
    from Cons.prems True have "\<forall>y\<in>set xs. f y \<noteq> f x" by (auto simp: image_iff)
    then have "filter (\<lambda>y. f y = f x) xs = []" by (simp add: filter_empty_conv)
    then show ?thesis using True by simp
  next
    case False
    from Cons.prems False have mem: "x \<in> set xs" and ne: "f a \<noteq> f x" and d: "distinct (map f xs)"
      by (auto simp: image_iff)
    have "filter (\<lambda>y. f y = f x) xs = [x]" by (rule Cons.IH [OF d mem])
    then show ?thesis using ne by simp
  qed
qed




lemma connection_requests_update_user [simp]:
  "connection_requests (update_user uid f db) = connection_requests db"
  by (simp add: update_user_def)

lemma get_request_update_user [simp]:
  "get_request (update_user uid f db) rid = get_request db rid"
  by (simp add: get_request_def)



lemma get_user_mem: "get_user db uid = Some u \<Longrightarrow> u \<in> set (users db)"
  unfolding get_user_def using find_Some_holds [of "\<lambda>u. user_id u = uid"] by blast




lemma users_update_request_status [simp]:
  "users (update_request_status rid s db) = users db"
  by (simp add: update_request_status_def)


section \<open>Facts about the message service and store\<close>

text \<open>Every call of the service's \<open>sendMessage\<close> adds one entry to the log and leaves the queue alone.\<close>

lemma messageService_sendMessage_log:
  assumes "messageService_sendMessage remote f t c w = (res, w')"
  shows "sent_log w' = sent_log w @ [(f, t, c, (\<not> isl res))] \<and> offline_queue w' = offline_queue w"
  using assms
  by (auto simp: messageService_sendMessage_def Let_def split: if_splits option.splits)

text \<open>
  The loop sends a prefix of the queue, in order; it ends at the first failed send, with
  the part of the queue from the failed entry on, or after the last entry.
\<close>

lemma processOfflineQueue_loop_log:
  assumes "processOfflineQueue_loop remote from q w = (r, w')"
  shows "\<exists>new. sent_log w' = sent_log w @ new \<and> offline_queue w' = offline_queue w
           \<and> map sent_args new = map (entry_args from) (take (length new) q)
           \<and> (case r of
                 None \<Rightarrow> length new = length q \<and> (\<forall>e\<in>set new. sent_ok e)
               | Some remaining \<Rightarrow>
                   new \<noteq> [] \<and> length new \<le> length q \<and> remaining = drop (length new - 1) q
                   \<and> \<not> sent_ok (last new) \<and> (\<forall>e\<in>set (butlast new). sent_ok e))"
  using assms
proof (induction q arbitrary: w)
  case Nil
  then show ?case by simp
next
  case (Cons m rest)
  obtain res w1 where s: "messageService_sendMessage remote from (entry_toUserId m) (entry_content m) w = (res, w1)"
    by (cases "messageService_sendMessage remote from (entry_toUserId m) (entry_content m) w") auto
  from messageService_sendMessage_log [OF s]
  have l1: "sent_log w1 = sent_log w @ [(from, entry_toUserId m, entry_content m, (\<not> isl res))]"
    and q1: "offline_queue w1 = offline_queue w" by auto
  show ?case
  proof (cases res)
    case (Inl e)
    with Cons.prems s have "r = Some (m # rest)" "w' = w1" by auto
    with l1 q1 Inl show ?thesis
      by (intro exI [of _ "[(from, entry_toUserId m, entry_content m, False)]"])
         (simp add: sent_args_def sent_ok_def entry_args_def)
  next
    case (Inr d)
    with Cons.prems s have rec: "processOfflineQueue_loop remote from rest w1 = (r, w')" by auto
    from Cons.IH [OF rec] obtain new where
      n1: "sent_log w' = sent_log w1 @ new" and n2: "offline_queue w' = offline_queue w1"
      and n3: "map sent_args new = map (entry_args from) (take (length new) rest)"
      and n4: "(case r of
                 None \<Rightarrow> length new = length rest \<and> (\<forall>e\<in>set new. sent_ok e)
               | Some remaining \<Rightarrow>
                   new \<noteq> [] \<and> length new \<le> length rest \<and> remaining = drop (length new - 1) rest
                   \<and> \<not> sent_ok (last new) \<and> (\<forall>e\<in>set (butlast new). sent_ok e))"
      by blast
    let ?e = "(from, entry_toUserId m, entry_content m, True)"
    have "sent_log w' = sent_log w @ (?e # new)" using n1 l1 Inr by simp
    moreover have "offline_queue w' = offline_queue w" using n2 q1 by simp
    moreover have "map sent_args (?e # new) = map (entry_args from) (take (length (?e # new)) (m # rest))"
      using n3 by (simp add: sent_args_def entry_args_def)
    moreover have "(case r of
                 None \<Rightarrow> length (?e # new) = length (m # rest) \<and> (\<forall>e\<in>set (?e # new). sent_ok e)
               | Some remaining \<Rightarrow>
                   (?e # new) \<noteq> [] \<and> length (?e # new) \<le> length (m # rest)
                   \<and> remaining = drop (length (?e # new) - 1) (m # rest)
                   \<and> \<not> sent_ok (last (?e # new)) \<and> (\<forall>e\<in>set (butlast (?e # new)). sent_ok e))"
    proof (cases r)
      case None
      with n4 show ?thesis by (simp add: sent_ok_def)
    next
      case (Some remaining)
      with n4 have ne: "new \<noteq> []" by simp
      then obtain k where k: "length new = Suc k" by (cases new) auto
      from Some n4 ne k show ?thesis by (simp add: sent_ok_def)
    qed
    ultimately show ?thesis by blast
  qed
qed

lemma set_store_simps [simp]:
  "store (set_store f w) = f (store w)"
  "user (set_store f w) = user w"
  "connection (set_store f w) = connection w"
  "offline_queue (set_store f w) = offline_queue w"
  "cached_messages (set_store f w) = cached_messages w"
  "clock (set_store f w) = clock w"
  "requests (set_store f w) = requests w"
  "sent_log (set_store f w) = sent_log w"
  by (simp_all add: set_store_def)


lemma setTypingStatus_offline:
  assumes "\<not> isOnline (store w)"
  shows "setTypingStatus b w = w"
  using assms by (simp add: setTypingStatus_def)



lemma js_trim_replicate:
  assumes "\<not> js_space ch"
  shows "js_trim (replicate n ch) = replicate n ch"
proof -
  have "dropWhile js_space (replicate n ch) = replicate n ch"
    using assms by (cases n) simp_all
  then show ?thesis by (simp add: js_trim_def)
qed

lemma long_content_facts:
  "length long_content = 501" "js_trim long_content \<noteq> []"
  by (simp_all add: long_content_def js_trim_replicate js_space_def)

text \<open>The example window, and what \<open>slice_last\<close> keeps of it.\<close>

lemma created_at_newest_first: "map created_at (newest_first lo hi) = rev [lo..<hi]"
  by (simp add: newest_first_def message_at_def o_def rev_map [symmetric])

lemma newest_first_append:
  assumes "lo \<le> mid" and "mid \<le> hi"
  shows "newest_first mid hi @ newest_first lo mid = newest_first lo hi"
proof -
  have "[lo..<hi] = [lo..<mid] @ [mid..<hi]"
    using assms by (metis le_Suc_ex upt_add_eq_append)
  then show ?thesis by (simp add: newest_first_def)
qed

lemma slice_last_newest_first:
  assumes "lo + n \<le> hi"
  shows "slice_last n (newest_first lo hi) = newest_first lo (lo + n)"
proof -
  have "hi - lo - (hi - lo - n) = n" using assms by arith
  then have "drop (hi - lo - n) (rev [lo..<hi]) = rev (take n [lo..<hi])"
    by (simp add: drop_rev)
  also have "take n [lo..<hi] = [lo..<lo + n]"
    using assms by simp
  finally show ?thesis
    by (simp add: slice_last_def newest_first_def drop_map)
qed

text \<open>
  The window and the cache after a page was fetched: the last 200 of the old window
  followed by the page, and the last 100 of those.
\<close>

lemma loadMoreMessages_window:
  assumes "\<not> isLoadingMore (store w)" and "hasMoreMessages (store w)"
      and "history_reply remote
             (requests w @ [SelectHistory u p ((currentPage (store w) + 1) * messagesPerPage (store w))
                              (messagesPerPage (store w))]) = Some data"
  shows "messages (store (loadMoreMessages remote u p w)) = slice_last 200 (messages (store w) @ data)"
    and "cached_messages (loadMoreMessages remote u p w) (cache_key u p)
           = Some (slice_last 100 (slice_last 200 (messages (store w) @ data)))"
  using assms
  by (simp_all add: loadMoreMessages_def getMessageHistory_def Let_def)

lemma loadMessages_window:
  assumes "history_reply remote
             (requests w @ [SelectHistory u p (currentPage (store w) * messagesPerPage (store w))
                              (messagesPerPage (store w))]) = Some data"
      and "filter (\<lambda>msg. msg_from_user msg = p \<and> read_at msg = None) data = []"
  shows "messages (store (loadMessages remote u p False w)) = slice_last 200 (messages (store w) @ data)"
    and "cached_messages (loadMessages remote u p False w) (cache_key u p)
           = Some (slice_last 100 (slice_last 200 (messages (store w) @ data)))"
  using assms
  by (simp_all add: loadMessages_def getMessageHistory_def Let_def)

lemma window_bound:
  "length (slice_last n xs) \<le> n"
  by (simp add: slice_last_def)

text \<open>
  Disconnecting: for a connected user whose partner exists both rows are reset; for a
  user who is not connected the operation fails and the tables stay. On success the
  settings screen empties the window of the message store and leaves both durable
  stores as they are.
\<close>

lemma disconnectUsers_connected:
  assumes d: "distinct (map user_id (users db))"
      and a: "get_user db a = Some ua"
      and st: "connection_status ua = Connected" and partner: "connected_to ua = Some b"
      and ne: "b \<noteq> []"
      and b: "get_user db b = Some ub"
  shows "\<exists>db'. disconnectUsers a db = (None, db')
           \<and> map_option connection_status (get_user db' a) = Some Disconnected
           \<and> map_option connected_to (get_user db' a) = Some None
           \<and> map_option connection_status (get_user db' b) = Some Disconnected
           \<and> map_option connected_to (get_user db' b) = Some None"
proof -
  let ?f = "\<lambda>u. u\<lparr>connection_status := Disconnected, connected_to := None\<rparr>"
  let ?db' = "update_user b ?f (update_user a ?f db)"
  have ida: "user_id ua = a" and idb: "user_id ub = b"
    using a b by (auto dest: get_user_Some_id)
  have "filter (\<lambda>u. user_id u = a) (users db) = [ua]"
    using filter_key_distinct [OF d get_user_mem [OF a]] ida by simp
  then have "filter (\<lambda>u. connection_status u = Connected) (filter (\<lambda>u. user_id u = a) (users db)) = [ua]"
    using st by simp
  then have row: "filter (\<lambda>u. user_id u = a \<and> connection_status u = Connected) (users db) = [ua]"
    by simp
  have run: "disconnectUsers a db = (None, ?db')"
    using partner ne by (simp add: disconnectUsers_def disconnectUsers_try_def row single_def)
  have ga: "get_user ?db' a = Some (?f ua)"
    by (simp add: get_user_update_user a ida)
  have gb: "get_user ?db' b = Some (?f ub)"
    by (simp add: get_user_update_user b idb)
  show ?thesis
    using run ga gb by (intro exI [of _ ?db']) simp
qed

lemma disconnectUsers_not_connected:
  assumes d: "distinct (map user_id (users db))"
      and a: "get_user db a = Some ua"
      and st: "connection_status ua \<noteq> Connected"
  shows "disconnectUsers a db = (Some NotConnected, db)"
proof -
  have ida: "user_id ua = a" using a by (auto dest: get_user_Some_id)
  have "filter (\<lambda>u. user_id u = a) (users db) = [ua]"
    using filter_key_distinct [OF d get_user_mem [OF a]] ida by simp
  then have "filter (\<lambda>u. connection_status u = Connected) (filter (\<lambda>u. user_id u = a) (users db)) = []"
    using st by simp
  then have row: "filter (\<lambda>u. user_id u = a \<and> connection_status u = Connected) (users db) = []"
    by simp
  show ?thesis
    by (simp add: disconnectUsers_def disconnectUsers_try_def row single_def)
qed

lemma confirmDisconnect_success:
  assumes "user w = Some u" and "disconnectUsers (user_id u) db = (None, db')"
  shows "\<exists>w'. confirmDisconnect (w, db) = Some (w', db')
           \<and> messages (store w') = []
           \<and> connectedUser (connection w') = None
           \<and> connectionStatus (connection w') = Some Disconnected
           \<and> cached_messages w' = cached_messages w
           \<and> offline_queue w' = offline_queue w"
  using assms
  by (simp add: confirmDisconnect_def disconnect_def Let_def resetStore_def cleanupSubscriptions_def)

lemma confirmDisconnect_failure:
  assumes "user w = Some u" and "disconnectUsers (user_id u) db = (Some e, db)"
  shows "confirmDisconnect (w, db)
           = Some (w\<lparr>connection := (connection w)\<lparr>isLoading := False, connection_error := Some e\<rparr>\<rparr>, db)"
  using assms
  by (simp add: confirmDisconnect_def disconnect_def Let_def)

text \<open>
  The bulk path of the read receipts touches unread messages only: a second
  \<open>markAllAsRead\<close> at a later instant leaves the \<open>read_at\<close> of the first, in the window
  and in the table.
\<close>

lemma markAllAsRead_twice_keeps:
  "map read_at (messages (store (markAllAsRead ''u2'' world_unread))) = [Some 1000]
   \<and> map read_at (messages (store (markAllAsRead ''u2''
                                      ((markAllAsRead ''u2'' world_unread)\<lparr>clock := 2000\<rparr>))))
       = [Some 1000]
   \<and> map read_at (fold apply_read_update
                     (requests (markAllAsRead ''u2''
                                  ((markAllAsRead ''u2'' world_unread)\<lparr>clock := 2000\<rparr>)))
                     [unread_message])
       = [Some 1000]"
  by (simp add: markAllAsRead_def markAllMessagesAsRead_def world_unread_def world_connected_def
                unread_message_def set_store_def id_or_empty_def mk_user_def)

section \<open>Accepting and rejecting a request\<close>





section \<open>Sending a request\<close>




section \<open>The store's \<open>sendRequest\<close>\<close>



section \<open>Draining the offline queue\<close>

text \<open>
  Claim C5. \<open>processOfflineQueue\<close> of the message service calls \<open>sendMessage\<close> for
  the entries of the stored queue in their order, for a prefix of the queue and for
  nothing else. When it reports failure, the last call failed, every earlier call
  succeeded, and the stored queue afterwards is the queue from the failed entry on.
  When it reports success, every entry was sent successfully and the stored queue is
  empty.
\<close>

theorem processOfflineQueue_fifo:
  assumes "messageService_processOfflineQueue remote fromUserId w = (success, w')"
  shows "\<exists>new. sent_log w' = sent_log w @ new
           \<and> map sent_args new
               = map (entry_args fromUserId) (take (length new) (getOfflineMessageQueue w))
           \<and> (success \<longrightarrow> length new = length (getOfflineMessageQueue w)
                 \<and> (\<forall>e\<in>set new. sent_ok e)
                 \<and> getOfflineMessageQueue w' = [])
           \<and> (\<not> success \<longrightarrow> new \<noteq> [] \<and> length new \<le> length (getOfflineMessageQueue w)
                 \<and> \<not> sent_ok (last new)
                 \<and> (\<forall>e\<in>set (butlast new). sent_ok e)
                 \<and> getOfflineMessageQueue w'
                     = drop (length new - 1) (getOfflineMessageQueue w))"
proof (cases "getOfflineMessageQueue w = []")
  case True
  with assms have "success" "w' = w"
    by (auto simp: messageService_processOfflineQueue_def)
  with True show ?thesis by (intro exI [of _ "[]"]) simp
next
  case False
  obtain r w1 where loop: "processOfflineQueue_loop remote fromUserId (getOfflineMessageQueue w) w = (r, w1)"
    by (cases "processOfflineQueue_loop remote fromUserId (getOfflineMessageQueue w) w") auto
  from processOfflineQueue_loop_log [OF loop] obtain new where
      n1: "sent_log w1 = sent_log w @ new"
      and n3: "map sent_args new = map (entry_args fromUserId) (take (length new) (getOfflineMessageQueue w))"
      and n4: "(case r of
                 None \<Rightarrow> length new = length (getOfflineMessageQueue w) \<and> (\<forall>e\<in>set new. sent_ok e)
               | Some remaining \<Rightarrow>
                   new \<noteq> [] \<and> length new \<le> length (getOfflineMessageQueue w)
                   \<and> remaining = drop (length new - 1) (getOfflineMessageQueue w)
                   \<and> \<not> sent_ok (last new) \<and> (\<forall>e\<in>set (butlast new). sent_ok e))"
    by blast
  show ?thesis
  proof (cases r)
    case None
    with assms False loop have "success" "w' = w1\<lparr>offline_queue := None\<rparr>"
      by (auto simp: messageService_processOfflineQueue_def Let_def)
    with None n1 n3 n4 show ?thesis
      by (intro exI [of _ new]) (simp add: getOfflineMessageQueue_def)
  next
    case (Some remaining)
    with assms False loop have "\<not> success" "w' = w1\<lparr>offline_queue := Some remaining\<rparr>"
      by (auto simp: messageService_processOfflineQueue_def Let_def)
    with Some n1 n3 n4 show ?thesis
      by (intro exI [of _ new]) (simp add: getOfflineMessageQueue_def)
  qed
qed

text \<open>
  A queue of three entries and a remote store that refuses the second: the first is
  sent, the second fails, the third is not tried, and the second and third stay queued.
\<close>

theorem processOfflineQueue_fifo_witness:
  "fst (messageService_processOfflineQueue (remote_refusing ''b'') ''u1'' world_queued) = False
   \<and> getOfflineMessageQueue (snd (messageService_processOfflineQueue (remote_refusing ''b'') ''u1'' world_queued))
       = [queued ''b'', queued ''c'']
   \<and> sent_log (snd (messageService_processOfflineQueue (remote_refusing ''b'') ''u1'' world_queued))
       = [(''u1'', ''u2'', ''a'', True), (''u1'', ''u2'', ''b'', False)]
   \<and> (\<exists>new. sent_log (snd (messageService_processOfflineQueue (remote_refusing ''b'') ''u1'' world_queued))
                = sent_log world_queued @ new
           \<and> map sent_args new = map (entry_args ''u1'') (take (length new) (getOfflineMessageQueue world_queued))
           \<and> new \<noteq> [] \<and> \<not> sent_ok (last new) \<and> (\<forall>e\<in>set (butlast new). sent_ok e)
           \<and> getOfflineMessageQueue (snd (messageService_processOfflineQueue (remote_refusing ''b'') ''u1'' world_queued))
                = drop (length new - 1) (getOfflineMessageQueue world_queued))"
proof -
  let ?run = "messageService_processOfflineQueue (remote_refusing ''b'') ''u1'' world_queued"
  have ev: "fst ?run = False"
    "getOfflineMessageQueue (snd ?run) = [queued ''b'', queued ''c'']"
    "sent_log (snd ?run) = [(''u1'', ''u2'', ''a'', True), (''u1'', ''u2'', ''b'', False)]"
    by (simp_all add: messageService_processOfflineQueue_def getOfflineMessageQueue_def world_queued_def
         world_connected_def queued_def messageService_sendMessage_def js_trim_def js_space_def
         remote_refusing_def server_row_def Let_def)
  have h: "?run = (False, snd ?run)"
    using ev(1) by (metis prod.collapse)
  from processOfflineQueue_fifo [OF h] obtain new where
      "sent_log (snd ?run) = sent_log world_queued @ new"
      "map sent_args new = map (entry_args ''u1'') (take (length new) (getOfflineMessageQueue world_queued))"
      "new \<noteq> []" "\<not> sent_ok (last new)" "\<forall>e\<in>set (butlast new). sent_ok e"
      "getOfflineMessageQueue (snd ?run) = drop (length new - 1) (getOfflineMessageQueue world_queued)"
    by auto
  with ev show ?thesis by blast
qed

section \<open>Sending a message\<close>



text \<open>
  Claim C4 does not hold of the code. The store's \<open>sendMessage\<close> checks nothing itself.
  Offline, a content of 501 characters is queued and shown as a message that is being
  sent, and no error is reported. Online, the optimistic record is put in the window
  before the service refuses the content; it stays there as a failed message. No
  insert is requested in either case.
\<close>

theorem sendMessage_too_long_has_effects:
  "length long_content = 501
   \<and> getOfflineMessageQueue world_offline = []
   \<and> getOfflineMessageQueue (sendMessage remote_up long_content world_offline)
       = [\<lparr>entry_toUserId = ''u2'', entry_content = long_content, entry_createdAt = 1000\<rparr>]
   \<and> map content (messages (store (sendMessage remote_up long_content world_offline))) = [long_content]
   \<and> map localStatus (messages (store (sendMessage remote_up long_content world_offline))) = [Some Sending]
   \<and> error (store (sendMessage remote_up long_content world_offline)) = None
   \<and> messages (store (sendMessage remote_up long_content world_connected))
       = [(optimistic long_content world_connected)\<lparr>localStatus := Some Failed\<rparr>]
   \<and> error (store (sendMessage remote_up long_content world_connected)) = Some ContentTooLong
   \<and> requests (sendMessage remote_up long_content world_connected) = [UpsertTyping ''u1'' ''u2'' False]"
proof -
  have off: "getOfflineMessageQueue world_offline = []"
    by (simp add: getOfflineMessageQueue_def world_offline_def world_connected_def)
  have a: "getOfflineMessageQueue (sendMessage remote_up long_content world_offline)
       = [\<lparr>entry_toUserId = ''u2'', entry_content = long_content, entry_createdAt = 1000\<rparr>]"
     "map content (messages (store (sendMessage remote_up long_content world_offline))) = [long_content]"
     "map localStatus (messages (store (sendMessage remote_up long_content world_offline))) = [Some Sending]"
     "error (store (sendMessage remote_up long_content world_offline)) = None"
    by (simp_all add: sendMessage_def Let_def setTypingStatus_def addToOfflineQueue_def
          getOfflineMessageQueue_def world_offline_def world_connected_def store_initial_def
          id_or_empty_def mk_user_def)
  have b: "messages (store (sendMessage remote_up long_content world_connected))
       = [(optimistic long_content world_connected)\<lparr>localStatus := Some Failed\<rparr>]"
     "error (store (sendMessage remote_up long_content world_connected)) = Some ContentTooLong"
     "requests (sendMessage remote_up long_content world_connected) = [UpsertTyping ''u1'' ''u2'' False]"
    by (simp_all add: sendMessage_def Let_def setTypingStatus_def sendMessage_optimistic_def
          messageService_sendMessage_def long_content_facts optimistic_def tempId_def
          world_connected_def store_initial_def id_or_empty_def mk_user_def)
  show ?thesis using off a b long_content_facts(1) by simp
qed

section \<open>Read receipts\<close>

text \<open>
  Claim C3 does not hold of the code. \<open>markAsRead\<close> writes the current instant
  whether or not the message was read before: the second of two calls replaces the
  \<open>read_at\<close> of the first by a later instant, in the window and in the row of the
  remote table.
\<close>

theorem markAsRead_twice_overwrites:
  "map read_at (messages (store (markAsRead ''m1'' world_unread))) = [Some 1000]
   \<and> map read_at (messages (store (markAsRead ''m1'' ((markAsRead ''m1'' world_unread)\<lparr>clock := 2000\<rparr>))))
       = [Some 2000]
   \<and> map read_at (fold apply_read_update (requests (markAsRead ''m1'' world_unread)) [unread_message])
       = [Some 1000]
   \<and> map read_at (fold apply_read_update
                     (requests (markAsRead ''m1'' ((markAsRead ''m1'' world_unread)\<lparr>clock := 2000\<rparr>)))
                     [unread_message])
       = [Some 2000]"
  by (simp add: markAsRead_def markMessageAsRead_def world_unread_def world_connected_def
                unread_message_def set_store_def)

section \<open>The message window\<close>

text \<open>
  Claim C9 does not hold of the code. The window and the cache are bounded (200 and
  100 messages), but the window lists the newest message first and \<open>slice_last\<close> keeps
  its end: when a page of older messages makes the window longer than 200, the newest
  messages are dropped and the oldest kept, by \<open>loadMoreMessages\<close> and by
  \<open>loadMessages\<close> alike.
\<close>

theorem load_keeps_oldest_messages:
  "map created_at (messages (store world_full_window)) = rev [20..<220]
   \<and> 219 \<in> set (map created_at (messages (store world_full_window)))
   \<and> 219 \<notin> set (map created_at
               (messages (store (loadMoreMessages remote_older_page ''u1'' ''u2'' world_full_window))))
   \<and> 0 \<in> set (map created_at
               (messages (store (loadMoreMessages remote_older_page ''u1'' ''u2'' world_full_window))))
   \<and> map created_at (messages (store (loadMoreMessages remote_older_page ''u1'' ''u2'' world_full_window)))
       = rev [0..<200]
   \<and> map_option (map created_at)
        (cached_messages (loadMoreMessages remote_older_page ''u1'' ''u2'' world_full_window)
           (cache_key ''u1'' ''u2''))
       = Some (rev [0..<100])
   \<and> map created_at (messages (store (loadMessages remote_older_page ''u1'' ''u2'' False world_full_window)))
       = rev [0..<200]
   \<and> map_option (map created_at)
        (cached_messages (loadMessages remote_older_page ''u1'' ''u2'' False world_full_window)
           (cache_key ''u1'' ''u2''))
       = Some (rev [0..<100])"
proof -
  have w: "messages (store world_full_window) = newest_first 20 220"
    "\<not> isLoadingMore (store world_full_window)" "hasMoreMessages (store world_full_window)"
    by (simp_all add: world_full_window_def world_connected_def store_initial_def)
  have r: "\<And>reqs. history_reply remote_older_page reqs = Some (newest_first 0 20)"
    by (simp add: remote_older_page_def)
  have read: "filter (\<lambda>msg. msg_from_user msg = ''u2'' \<and> read_at msg = None) (newest_first 0 20) = []"
    by (simp add: newest_first_def message_at_def filter_empty_conv)
  have comb: "newest_first 20 220 @ newest_first 0 20 = newest_first 0 220"
    by (rule newest_first_append) simp_all
  have win: "slice_last 200 (newest_first 0 220) = newest_first 0 200"
    using slice_last_newest_first [of 0 200 220] by simp
  have cache: "slice_last 100 (newest_first 0 200) = newest_first 0 100"
    using slice_last_newest_first [of 0 100 200] by simp
  show ?thesis
    using loadMoreMessages_window [OF w(2,3) r, of "''u1''" "''u2''"]
          loadMessages_window [where w = world_full_window and u = "''u1''" and p = "''u2''", OF r read]
    by (simp add: w(1) comb win cache created_at_newest_first)
qed

section \<open>Disconnecting\<close>

text \<open>
  Claim C8 does not hold of the code in its last part. \<open>confirmDisconnect\<close> resets
  both users and empties the window of the message store, but the cached messages of
  the conversation stay in the durable store, and the next start of the store for the
  same pair puts them back into the window.
\<close>

theorem confirmDisconnect_keeps_cached_messages:
  "confirmDisconnect (world_with_history, db_connected) \<noteq> None
   \<and> map connection_status (users (snd (the (confirmDisconnect (world_with_history, db_connected)))))
       = [Disconnected, Disconnected]
   \<and> map connected_to (users (snd (the (confirmDisconnect (world_with_history, db_connected)))))
       = [None, None]
   \<and> messages (store (fst (the (confirmDisconnect (world_with_history, db_connected))))) = []
   \<and> cached_messages (fst (the (confirmDisconnect (world_with_history, db_connected))))
        (cache_key ''u1'' ''u2'') = Some [message_at 900]
   \<and> messages (store (restore_cached_messages ''u1'' ''u2''
                         (fst (the (confirmDisconnect (world_with_history, db_connected))))))
       = [message_at 900]"
proof -
  have d: "disconnectUsers ''u1'' db_connected
           = (None, \<lparr>users = [mk_user ''u1'' Disconnected None, mk_user ''u2'' Disconnected None],
                     connection_requests = [request1 ReqAccepted]\<rparr>)"
    by (simp add: disconnectUsers_def disconnectUsers_try_def single_def db_connected_def
                  mk_user_def update_user_def)
  have u: "user world_with_history = Some (mk_user ''u1'' Connected (Some ''u2''))"
    by (simp add: world_with_history_def world_connected_def)
  have run: "confirmDisconnect (world_with_history, db_connected)
        = Some ((resetStore (world_with_history\<lparr>connection :=
                     (connection world_with_history)\<lparr>connection_error := None, isLoading := False,
                        connectionStatus := Some Disconnected, connectedUser := None\<rparr>\<rparr>))
                  \<lparr>user := Some (mk_user ''u1'' Disconnected None)\<rparr>,
                \<lparr>users = [mk_user ''u1'' Disconnected None, mk_user ''u2'' Disconnected None],
                     connection_requests = [request1 ReqAccepted]\<rparr>)"
    by (simp add: confirmDisconnect_def u disconnect_def d Let_def mk_user_def)
  show ?thesis
    unfolding run
    by (simp add: resetStore_def cleanupSubscriptions_def restore_cached_messages_def
                  world_with_history_def mk_user_def)
qed

end
